theory Spec2Isabelle
  imports Main
begin

section \<open>Python values and exceptions\<close>

text \<open>
  The completer of \<^verbatim>\<open>ycmd/completers/rust/rust_completer.py\<close> handles values decoded
  from JSON and Python dictionaries built from them. Both are values of \<open>json\<close>:
  \<open>JNull\<close> is Python's \<^verbatim>\<open>None\<close>, \<open>JObj\<close> a dictionary in insertion order (keys
  distinct), \<open>JArr\<close> a list. Floating-point numbers are left out. Text and byte strings
  are both \<open>string\<close>: a \<open>char\<close> is a byte, and \<^verbatim>\<open>ToBytes\<close> and \<^verbatim>\<open>native\<close> do not
  change the bytes of the ASCII text the completer passes through them.
\<close>

datatype json =
    JNull
  | JBool bool
  | JInt int
  | JStr string
  | JArr "json list"
  | JObj "(string \<times> json) list"

text \<open>
  The exceptions that the source raises, catches, or lets through. \<open>ConnectionError\<close>
  stands for \<^verbatim>\<open>requests.exceptions.ConnectionError\<close> and its subclasses, \<open>HTTPError\<close> for
  \<^verbatim>\<open>requests.HTTPError\<close> with the status that \<^verbatim>\<open>raise_for_status\<close> rejected, and
  \<open>RequestException\<close> for every other failure of \<^verbatim>\<open>requests.request\<close> (a timeout, a URL
  without a scheme). \<open>OSError\<close> is what \<^verbatim>\<open>os.unlink\<close> raises for a file that is not there.
\<close>

datatype py_error =
    KeyError string
  | TypeError
  | ValueError
  | AttributeError
  | RuntimeError string
  | HTTPError nat
  | ConnectionError
  | RequestException
  | OSError

text \<open>Truth value testing: \<^verbatim>\<open>if x:\<close> and \<^verbatim>\<open>not x\<close>.\<close>

fun truthy :: "json \<Rightarrow> bool" where
  "truthy JNull = False"
| "truthy (JBool b) = b"
| "truthy (JInt n) = (n \<noteq> 0)"
| "truthy (JStr s) = (s \<noteq> [])"
| "truthy (JArr xs) = (xs \<noteq> [])"
| "truthy (JObj kvs) = (kvs \<noteq> [])"

text \<open>Subscription with a string key, \<^verbatim>\<open>d[ 'key' ]\<close>: only a dictionary has string keys.\<close>

fun getitem :: "json \<Rightarrow> string \<Rightarrow> py_error + json" where
  "getitem (JObj kvs) k = (case map_of kvs k of None \<Rightarrow> Inl (KeyError k) | Some v \<Rightarrow> Inr v)"
| "getitem _ k = Inl TypeError"

text \<open>\<^verbatim>\<open>x + 1\<close> and \<^verbatim>\<open>x - 1\<close>: defined on integers (and on booleans, which Python counts as 0 and 1).\<close>

fun py_add :: "json \<Rightarrow> int \<Rightarrow> py_error + json" where
  "py_add (JInt n) k = Inr (JInt (n + k))"
| "py_add (JBool b) k = Inr (JInt ((if b then 1 else 0) + k))"
| "py_add _ k = Inl TypeError"

section \<open>Completion candidates\<close>

text \<open>
  \<^verbatim>\<open>_GetExtraData\<close> (lines 221-233). The dictionary \<^verbatim>\<open>location\<close> starts empty and gets
  one entry for each of the three fields of the completion that is truthy; the result is
  \<^verbatim>\<open>{ 'location': location }\<close> when the dictionary is not empty and \<^verbatim>\<open>None\<close> otherwise.
\<close>

definition GetExtraData :: "json \<Rightarrow> py_error + json" where
  "GetExtraData completion =
     (case getitem completion ''file_path'' of Inl e \<Rightarrow> Inl e | Inr file_path \<Rightarrow>
     (let location1 = (if truthy file_path then [(''filepath'', file_path)] else []) in
     (case getitem completion ''line'' of Inl e \<Rightarrow> Inl e | Inr line \<Rightarrow>
     (let location2 = (if truthy line then location1 @ [(''line_num'', line)] else location1) in
     (case getitem completion ''column'' of Inl e \<Rightarrow> Inl e | Inr col \<Rightarrow>
     (case (if truthy col
            then (case py_add col 1 of Inl e \<Rightarrow> Inl e
                  | Inr v \<Rightarrow> Inr (location2 @ [(''column_num'', v)]))
            else Inr location2) of Inl e \<Rightarrow> Inl e | Inr location \<Rightarrow>
      Inr (if truthy (JObj location) then JObj [(''location'', JObj location)] else JNull)))))))"

text \<open>
  Modelled from the spec: \<^verbatim>\<open>responses.BuildCompletionData\<close> is not under src/. The spec's
  CompletionCandidate holds the text to insert, the kind tag, the context string and the
  optional location; the record keeps the four keyword arguments of the call at lines
  247-251 as they are passed.
\<close>

record completion_data =
  insertion_text :: json
  kind :: json
  extra_menu_info :: json
  extra_data :: json

text \<open>One element of the list comprehension of \<^verbatim>\<open>ComputeCandidatesInner\<close> (lines 247-251).\<close>

definition BuildCandidate :: "json \<Rightarrow> py_error + completion_data" where
  "BuildCandidate completion =
     (case getitem completion ''text'' of Inl e \<Rightarrow> Inl e | Inr t \<Rightarrow>
     (case getitem completion ''kind'' of Inl e \<Rightarrow> Inl e | Inr k \<Rightarrow>
     (case getitem completion ''context'' of Inl e \<Rightarrow> Inl e | Inr c \<Rightarrow>
     (case GetExtraData completion of Inl e \<Rightarrow> Inl e | Inr x \<Rightarrow>
      Inr \<lparr> insertion_text = t, kind = k, extra_menu_info = c, extra_data = x \<rparr>))))"

text \<open>The comprehension: the first element that raises ends it.\<close>

fun BuildCandidates :: "json list \<Rightarrow> py_error + completion_data list" where
  "BuildCandidates [] = Inr []"
| "BuildCandidates (c # cs) =
     (case BuildCandidate c of Inl e \<Rightarrow> Inl e | Inr d \<Rightarrow>
     (case BuildCandidates cs of Inl e \<Rightarrow> Inl e | Inr ds \<Rightarrow> Inr (d # ds)))"

section \<open>The completer's state and its environment\<close>

text \<open>
  The attributes of a \<^verbatim>\<open>RustCompleter\<close> that the methods read and write (lines
  103-108 and 282-294). An attribute that holds a string or \<^verbatim>\<open>None\<close> is a
  \<open>string option\<close>; the process handle is the identifier of the spawned process.
\<close>

record state =
  racerd :: string
  racerd_host :: "string option"
  keep_logfiles :: bool
  hmac_secret :: string
  rust_source_path :: "string option"
  server_stdout :: "string option"
  server_stderr :: "string option"
  racerd_phandle :: "nat option"

text \<open>Truth value of an attribute that is a string or \<^verbatim>\<open>None\<close>.\<close>

fun truthy_str :: "string option \<Rightarrow> bool" where
  "truthy_str None = False"
| "truthy_str (Some s) = (s \<noteq> [])"

text \<open>
  \<^verbatim>\<open>ToBytes\<close> (of \<^verbatim>\<open>ycmd.utils\<close>, not under src/) on such an attribute, as
  \<^verbatim>\<open>_GetResponse\<close> applies it to the host: a falsy argument gives the empty byte string.
\<close>

fun ToBytes :: "string option \<Rightarrow> string" where
  "ToBytes None = []"
| "ToBytes (Some s) = s"

text \<open>
  A call of \<^verbatim>\<open>requests.request\<close> (lines 167-170): the method, the two arguments of
  \<^verbatim>\<open>urljoin\<close> that make the URL (for a handler that is an absolute path, the URL's
  path is the handler), the body and the headers.
\<close>

record http_request =
  req_method :: string
  req_base :: string
  req_handler :: string
  req_data :: string
  req_headers :: "(string \<times> string) list"

text \<open>
  What comes back: the status, and the value \<^verbatim>\<open>response.json()\<close> decodes from the body
  (\<open>None\<close> when the body is not JSON, where \<^verbatim>\<open>response.json()\<close> raises \<^verbatim>\<open>ValueError\<close>).
\<close>

record response =
  status_code :: nat
  json_body :: "json option"

text \<open>The call of \<^verbatim>\<open>utils.SafePopen\<close> at lines 289-292.\<close>

record popen_call =
  popen_args :: "string list"
  popen_stdout :: string
  popen_stderr :: string
  popen_env :: "(string \<times> string) list"

text \<open>The effects on the outside world, in the order in which they happen.\<close>

datatype event =
    EvWriteFile string string
  | EvOpenLog string
  | EvSpawn popen_call nat
  | EvTerminate nat
  | EvWait nat
  | EvUnlink string
  | EvRequest http_request

text \<open>
  The world outside the completer: the trace of effects, the files (path to contents),
  the processes that are alive, and the answers the operating system and the backend
  give: the port of \<^verbatim>\<open>GetUnusedLocalhostPort\<close>, the bytes of \<^verbatim>\<open>os.urandom\<close>, the
  directory of \<^verbatim>\<open>PathToCreatedTempDir\<close>, the name of the \<^verbatim>\<open>NamedTemporaryFile\<close>, the
  process \<^verbatim>\<open>SafePopen\<close> starts and whether it is alive afterwards, and the outcome of an
  HTTP request given everything that happened before it. The helpers of \<^verbatim>\<open>ycmd.utils\<close>
  are not under src/; they are taken to succeed with these answers.
\<close>

record world =
  events :: "event list"
  fs :: "string \<Rightarrow> string option"
  alive :: "nat \<Rightarrow> bool"
  unused_port :: nat
  urandom :: "nat \<Rightarrow> string"
  temp_dir :: string
  secret_file_name :: string
  popen_pid :: nat
  popen_alive :: bool
  respond :: "event list \<Rightarrow> http_request \<Rightarrow> py_error + response"

definition emit :: "event list \<Rightarrow> world \<Rightarrow> world" where
  "emit es w = w\<lparr> events := events w @ es \<rparr>"

text \<open>
  Library functions the completer calls and the model does not compute:
  \<^verbatim>\<open>json.dumps\<close>, and \<^verbatim>\<open>hmac_utils.CreateRequestHmac\<close> (method, path, body, secret),
  which is not under src/.
\<close>

record lib =
  json_dumps :: "json \<Rightarrow> string"
  CreateRequestHmac :: "string \<Rightarrow> string \<Rightarrow> string \<Rightarrow> string \<Rightarrow> string"

section \<open>Requests to racerd\<close>

definition RACERD_HMAC_HEADER :: string where
  "RACERD_HMAC_HEADER = ''x-racerd-hmac''"

definition HMAC_SECRET_LENGTH :: nat where
  "HMAC_SECRET_LENGTH = 16"

definition ERROR_FROM_RACERD_MESSAGE :: string where
  "ERROR_FROM_RACERD_MESSAGE =
     ''Received error from racerd while retrieving completions. You did not '' @
     ''set the rust_src_path option, which is probably causing this issue. '' @
     ''See YCM docs for details.''"

text \<open>\<^verbatim>\<open>binascii.hexlify\<close>: two lower-case hexadecimal digits for every byte.\<close>

definition hex_digit :: "nat \<Rightarrow> char" where
  "hex_digit n = ''0123456789abcdef'' ! n"

definition hexlify :: "string \<Rightarrow> string" where
  "hexlify bs = concat (map (\<lambda>c. [hex_digit (of_char c div 16), hex_digit (of_char c mod 16)]) bs)"

text \<open>\<^verbatim>\<open>_ExtraHeaders\<close> (lines 180-192).\<close>

definition ExtraHeaders :: "lib \<Rightarrow> state \<Rightarrow> string \<Rightarrow> string \<Rightarrow> string \<Rightarrow> (string \<times> string) list" where
  "ExtraHeaders L s meth handler body0 =
     (let body = (if body0 = [] then [] else body0);
          hmac = CreateRequestHmac L meth handler body (hmac_secret s);
          final_hmac_value = hexlify hmac
      in [(''content-type'', ''application/json''), (RACERD_HMAC_HEADER, final_hmac_value)])"

text \<open>
  \<^verbatim>\<open>_ConvertToRacerdRequest\<close> (lines 195-218). The loop over
  \<^verbatim>\<open>iteritems( request_data[ 'file_data' ] )\<close> is \<open>convert_buffers\<close>; \<^verbatim>\<open>iteritems\<close> of a
  value that is not a dictionary raises \<^verbatim>\<open>AttributeError\<close>.
\<close>

fun convert_buffers :: "(string \<times> json) list \<Rightarrow> py_error + json list" where
  "convert_buffers [] = Inr []"
| "convert_buffers ((path, obj) # rest) =
     (case getitem obj ''contents'' of Inl e \<Rightarrow> Inl e | Inr contents \<Rightarrow>
     (case convert_buffers rest of Inl e \<Rightarrow> Inl e | Inr bs \<Rightarrow>
      Inr (JObj [(''contents'', contents), (''file_path'', JStr path)] # bs)))"

fun iteritems :: "json \<Rightarrow> py_error + (string \<times> json) list" where
  "iteritems (JObj kvs) = Inr kvs"
| "iteritems _ = Inl AttributeError"

definition ConvertToRacerdRequest :: "json \<Rightarrow> py_error + json" where
  "ConvertToRacerdRequest request_data =
     (if \<not> truthy request_data then Inr JNull
      else
       (case getitem request_data ''filepath'' of Inl e \<Rightarrow> Inl e | Inr file_path \<Rightarrow>
       (case getitem request_data ''file_data'' of Inl e \<Rightarrow> Inl e | Inr file_data \<Rightarrow>
       (case iteritems file_data of Inl e \<Rightarrow> Inl e | Inr items \<Rightarrow>
       (case convert_buffers items of Inl e \<Rightarrow> Inl e | Inr buffers \<Rightarrow>
       (case getitem request_data ''line_num'' of Inl e \<Rightarrow> Inl e | Inr line \<Rightarrow>
       (case getitem request_data ''column_num'' of Inl e \<Rightarrow> Inl e | Inr column_num \<Rightarrow>
       (case py_add column_num (- 1) of Inl e \<Rightarrow> Inl e | Inr col \<Rightarrow>
        Inr (JObj [(''buffers'', JArr buffers), (''line'', line), (''column'', col),
                   (''file_path'', file_path)])))))))))"

text \<open>
  \<^verbatim>\<open>_GetResponse\<close> (lines 144-177) in two parts. \<open>PrepareRequest\<close> is lines 154-159:
  the body is the dumped parameters, or empty when there are none, and the headers are
  computed from the method, the handler and that body.
\<close>

definition PrepareRequest :: "lib \<Rightarrow> state \<Rightarrow> string \<Rightarrow> json \<Rightarrow> string \<Rightarrow> py_error + http_request" where
  "PrepareRequest L s handler request_data meth =
     (case ConvertToRacerdRequest request_data of Inl e \<Rightarrow> Inl e | Inr parameters \<Rightarrow>
     (let body = (if truthy parameters then json_dumps L parameters else []);
          extra_headers = ExtraHeaders L s meth handler body
      in Inr \<lparr> req_method = meth, req_base = ToBytes (racerd_host s), req_handler = handler,
               req_data = body, req_headers = extra_headers \<rparr>))"

text \<open>
  Lines 167-177: the request is sent, \<^verbatim>\<open>raise_for_status\<close> raises for a status from
  400 to 599, status 204 gives \<^verbatim>\<open>None\<close>, and anything else is decoded as JSON.
\<close>

definition GetResponse :: "lib \<Rightarrow> state \<Rightarrow> world \<Rightarrow> string \<Rightarrow> json \<Rightarrow> string \<Rightarrow> (py_error + json) \<times> world" where
  "GetResponse L s w handler request_data meth =
     (case PrepareRequest L s handler request_data meth of Inl e \<Rightarrow> (Inl e, w) | Inr req \<Rightarrow>
     (let w' = emit [EvRequest req] w in
     (case respond w (events w) req of Inl e \<Rightarrow> (Inl e, w') | Inr r \<Rightarrow>
      (if 400 \<le> status_code r \<and> status_code r < 600 then (Inl (HTTPError (status_code r)), w')
       else (if status_code r = 204 then (Inr JNull, w')
             else (case json_body r of None \<Rightarrow> (Inl ValueError, w') | Some j \<Rightarrow> (Inr j, w')))))))"

text \<open>\<^verbatim>\<open>except requests.HTTPError\<close>.\<close>

fun is_HTTPError :: "py_error \<Rightarrow> bool" where
  "is_HTTPError (HTTPError n) = True"
| "is_HTTPError _ = False"

text \<open>
  \<^verbatim>\<open>for completion in completions\<close>: a list gives its elements, a dictionary its keys,
  a string its characters; the other values are not iterable.
\<close>

fun py_iter :: "json \<Rightarrow> py_error + json list" where
  "py_iter (JArr xs) = Inr xs"
| "py_iter (JObj kvs) = Inr (map (\<lambda>kv. JStr (fst kv)) kvs)"
| "py_iter (JStr s) = Inr (map (\<lambda>c. JStr [c]) s)"
| "py_iter _ = Inl TypeError"

text \<open>\<^verbatim>\<open>_FetchCompletions\<close> (lines 255-256) and \<^verbatim>\<open>ComputeCandidatesInner\<close> (lines 236-252).\<close>

definition FetchCompletions :: "lib \<Rightarrow> state \<Rightarrow> world \<Rightarrow> json \<Rightarrow> (py_error + json) \<times> world" where
  "FetchCompletions L s w request_data = GetResponse L s w ''/list_completions'' request_data ''POST''"

definition ComputeCandidatesInner :: "lib \<Rightarrow> state \<Rightarrow> world \<Rightarrow> json \<Rightarrow> (py_error + completion_data list) \<times> world" where
  "ComputeCandidatesInner L s w request_data =
     (case FetchCompletions L s w request_data of
        (Inl e, w') \<Rightarrow>
          (if is_HTTPError e
           then (if \<not> truthy_str (rust_source_path s)
                 then (Inl (RuntimeError ERROR_FROM_RACERD_MESSAGE), w')
                 else (Inl e, w'))
           else (Inl e, w'))
      | (Inr completions, w') \<Rightarrow>
          (if \<not> truthy completions then (Inr [], w')
           else case py_iter completions of Inl e \<Rightarrow> (Inl e, w')
                | Inr cs \<Rightarrow> (BuildCandidates cs, w')))"

section \<open>The life of the racerd process\<close>

text \<open>Decimal digits of a number: \<^verbatim>\<open>str( port )\<close> and \<^verbatim>\<open>'{0}'.format( port )\<close>.\<close>

definition digit_char :: "nat \<Rightarrow> char" where
  "digit_char n = ''0123456789'' ! n"

fun str_nat :: "nat \<Rightarrow> string" where
  "str_nat n = (if n < 10 then [digit_char n] else str_nat (n div 10) @ [digit_char (n mod 10)])"

declare str_nat.simps [simp del]

text \<open>\<^verbatim>\<open>'{0}'.format( x )\<close> for an attribute that is a string or \<^verbatim>\<open>None\<close>.\<close>

fun format_str :: "string option \<Rightarrow> string" where
  "format_str None = ''None''"
| "format_str (Some s) = s"

text \<open>\<^verbatim>\<open>os.path.join\<close> of a directory and a relative name, on POSIX.\<close>

definition path_join :: "string \<Rightarrow> string \<Rightarrow> string" where
  "path_join a b = (if a = [] \<or> last a = CHR ''/'' then a @ b else a @ ''/'' @ b)"

text \<open>
  Lines 279-285: the name of a log file, \<^verbatim>\<open>racerd_{port}_{std}.log\<close> in the temporary
  directory (whose path is taken to hold no braces for \<^verbatim>\<open>format\<close> to read).
\<close>

definition log_file_name :: "world \<Rightarrow> nat \<Rightarrow> string \<Rightarrow> string" where
  "log_file_name w port std = path_join (temp_dir w) (''racerd_'' @ str_nat port @ ''_'' @ std @ ''.log'')"

text \<open>\<^verbatim>\<open>base64.b64encode\<close>: three bytes give four characters, the last group is padded.\<close>

definition b64_char :: "nat \<Rightarrow> char" where
  "b64_char n = ''ABCDEFGHIJKLMNOPQRSTUVWXYZabcdefghijklmnopqrstuvwxyz0123456789+/'' ! n"

fun b64encode :: "string \<Rightarrow> string" where
  "b64encode [] = []"
| "b64encode [a] =
     (let x = (of_char a :: nat)
      in [b64_char (x div 4), b64_char ((x mod 4) * 16), CHR ''='', CHR ''=''])"
| "b64encode [a, b] =
     (let x = (of_char a :: nat); y = (of_char b :: nat)
      in [b64_char (x div 4), b64_char ((x mod 4) * 16 + y div 16),
          b64_char ((y mod 16) * 4), CHR ''=''])"
| "b64encode (a # b # c # rest) =
     (let x = (of_char a :: nat); y = (of_char b :: nat); z = (of_char c :: nat)
      in [b64_char (x div 4), b64_char ((x mod 4) * 16 + y div 16),
          b64_char ((y mod 16) * 4 + z div 64), b64_char (z mod 64)] @ b64encode rest)"

text \<open>\<^verbatim>\<open>_CreateHmacSecret\<close> (lines 390-391).\<close>

definition CreateHmacSecret :: "world \<Rightarrow> string" where
  "CreateHmacSecret w = b64encode (urandom w HMAC_SECRET_LENGTH)"

text \<open>
  Modelled from the spec: \<^verbatim>\<open>utils.ProcessIsRunning\<close> is not under src/. The spec's
  IsRunning holds when "the OS reports the process handle as alive"; no handle is not
  alive.
\<close>

definition ProcessIsRunning :: "world \<Rightarrow> nat option \<Rightarrow> bool" where
  "ProcessIsRunning w handle = (case handle of None \<Rightarrow> False | Some p \<Rightarrow> alive w p)"

text \<open>\<^verbatim>\<open>ServerIsRunning\<close> (lines 300-307).\<close>

definition ServerIsRunning :: "state \<Rightarrow> world \<Rightarrow> bool" where
  "ServerIsRunning s w = (truthy_str (racerd_host s) \<and> ProcessIsRunning w (racerd_phandle s))"

text \<open>
  \<^verbatim>\<open>_StartServer\<close> (lines 259-297), statement by statement: the secret, the secret
  file, the arguments, the two log file names, the two log files (stderr is opened
  first), the process, the host, and the check that raises.
\<close>

definition StartServer :: "state \<Rightarrow> world \<Rightarrow> (py_error + unit) \<times> state \<times> world" where
  "StartServer s w =
     (let port = unused_port w;
          s1 = s\<lparr> hmac_secret := CreateHmacSecret w \<rparr>;
          secret_file = secret_file_name w;
          w1 = (emit [EvWriteFile secret_file (hmac_secret s1)] w)
                 \<lparr> fs := (fs w)(secret_file \<mapsto> hmac_secret s1) \<rparr>;
          args = [racerd s1, ''serve'', ''--port'', str_nat port, ''-l'',
                  ''--secret-file'', secret_file];
          env = [(''RUST_BACKTRACE'', ''1'')];
          args' = (if truthy_str (rust_source_path s1)
                   then args @ [''--rust-src-path'', format_str (rust_source_path s1)]
                   else args);
          s2 = s1\<lparr> server_stdout := Some (log_file_name w port ''stdout'') \<rparr>;
          s3 = s2\<lparr> server_stderr := Some (log_file_name w port ''stderr'') \<rparr>;
          err = format_str (server_stderr s3);
          out = format_str (server_stdout s3);
          w2 = (emit [EvOpenLog err] w1)\<lparr> fs := (fs w1)(err \<mapsto> []) \<rparr>;
          w3 = (emit [EvOpenLog out] w2)\<lparr> fs := (fs w2)(out \<mapsto> []) \<rparr>;
          call = \<lparr> popen_args = args', popen_stdout = out, popen_stderr = err, popen_env = env \<rparr>;
          w4 = (emit [EvSpawn call (popen_pid w)] w3)
                 \<lparr> alive := (alive w3)(popen_pid w := popen_alive w) \<rparr>;
          s4 = s3\<lparr> racerd_phandle := Some (popen_pid w) \<rparr>;
          s5 = s4\<lparr> racerd_host := Some (''http://127.0.0.1:'' @ str_nat port) \<rparr>
      in if \<not> ServerIsRunning s5 w4
         then (Inl (RuntimeError ''Failed to start racerd!''), s5, w4)
         else (Inr (), s5, w4))"

text \<open>\<^verbatim>\<open>os.path.exists\<close> and \<^verbatim>\<open>os.unlink\<close>.\<close>

definition path_exists :: "world \<Rightarrow> string \<Rightarrow> bool" where
  "path_exists w f = (fs w f \<noteq> None)"

definition os_unlink :: "world \<Rightarrow> string \<Rightarrow> py_error + world" where
  "os_unlink w f =
     (if fs w f = None then Inl OSError
      else Inr ((emit [EvUnlink f] w)\<lparr> fs := (fs w)(f := None) \<rparr>))"

text \<open>
  Lines 338-340 and 343-345, for either log: the file is unlinked and the attribute set
  to \<^verbatim>\<open>None\<close> when the attribute is truthy and the file exists. The result is the new
  value of the attribute.
\<close>

definition remove_log :: "world \<Rightarrow> string option \<Rightarrow> py_error + (string option \<times> world)" where
  "remove_log w attr =
     (case attr of
        None \<Rightarrow> Inr (None, w)
      | Some f \<Rightarrow>
          (if truthy_str (Some f) \<and> path_exists w f
           then (case os_unlink w f of Inl e \<Rightarrow> Inl e | Inr w' \<Rightarrow> Inr (None, w'))
           else Inr (Some f, w)))"

text \<open>
  \<^verbatim>\<open>_StopServer\<close> (lines 328-345). \<^verbatim>\<open>terminate\<close> and \<^verbatim>\<open>wait\<close> leave the process
  not alive.
\<close>

definition StopServer :: "state \<Rightarrow> world \<Rightarrow> (py_error + unit) \<times> state \<times> world" where
  "StopServer s w =
     (let (s1, w1) =
            (case racerd_phandle s of
               Some p \<Rightarrow>
                 (s\<lparr> racerd_phandle := None, racerd_host := None \<rparr>,
                  (emit [EvTerminate p, EvWait p] w)\<lparr> alive := (alive w)(p := False) \<rparr>)
             | None \<Rightarrow> (s, w))
      in if \<not> keep_logfiles s1
         then (case remove_log w1 (server_stdout s1) of
                 Inl e \<Rightarrow> (Inl e, s1, w1)
               | Inr (out, w2) \<Rightarrow>
                   (let s2 = s1\<lparr> server_stdout := out \<rparr>
                    in case remove_log w2 (server_stderr s2) of
                         Inl e \<Rightarrow> (Inl e, s2, w2)
                       | Inr (err, w3) \<Rightarrow> (Inr (), s2\<lparr> server_stderr := err \<rparr>, w3)))
         else (Inr (), s1, w1))"

text \<open>\<^verbatim>\<open>_RestartServer\<close> (lines 348-356).\<close>

definition RestartServer :: "state \<Rightarrow> world \<Rightarrow> (py_error + unit) \<times> state \<times> world" where
  "RestartServer s w =
     (if ServerIsRunning s w
      then (case StopServer s w of
              (Inl e, s1, w1) \<Rightarrow> (Inl e, s1, w1)
            | (Inr u, s1, w1) \<Rightarrow> StartServer s1 w1)
      else StartServer s w)"

text \<open>\<^verbatim>\<open>Shutdown\<close> (lines 386-387).\<close>

definition Shutdown :: "state \<Rightarrow> world \<Rightarrow> (py_error + unit) \<times> state \<times> world" where
  "Shutdown s w = StopServer s w"

text \<open>
  \<^verbatim>\<open>ServerIsReady\<close> (lines 310-325): only
  \<^verbatim>\<open>requests.exceptions.ConnectionError\<close> is caught.
\<close>

definition ServerIsReady :: "lib \<Rightarrow> state \<Rightarrow> world \<Rightarrow> (py_error + bool) \<times> world" where
  "ServerIsReady L s w =
     (if \<not> ServerIsRunning s w then (Inr False, w)
      else (case GetResponse L s w ''/ping'' JNull ''GET'' of
              (Inr r, w') \<Rightarrow> (Inr True, w')
            | (Inl e, w') \<Rightarrow> (if e = ConnectionError then (Inr False, w') else (Inl e, w'))))"

text \<open>
  Modelled from the spec: \<^verbatim>\<open>responses.BuildGoToResponse\<close> is not under src/. The spec's
  go-to-definition result is "a location (path, line, 1-based column = backend column +
  1)"; the record keeps the three arguments of the call at lines 378-380.
\<close>

record goto_response =
  goto_filepath :: json
  goto_line_num :: json
  goto_column_num :: json

definition CANNOT_JUMP :: string where
  "CANNOT_JUMP = ''Can'' @ [CHR 0x27] @ ''t jump to definition.''"

text \<open>\<^verbatim>\<open>_GoToDefinition\<close> (lines 374-383): every exception becomes the same \<^verbatim>\<open>RuntimeError\<close>.\<close>

definition GoToDefinition :: "lib \<Rightarrow> state \<Rightarrow> world \<Rightarrow> json \<Rightarrow> (py_error + goto_response) \<times> world" where
  "GoToDefinition L s w request_data =
     (case GetResponse L s w ''/find_definition'' request_data ''POST'' of
        (Inl e, w') \<Rightarrow> (Inl (RuntimeError CANNOT_JUMP), w')
      | (Inr definition, w') \<Rightarrow>
          (case getitem definition ''file_path'' of Inl e \<Rightarrow> (Inl (RuntimeError CANNOT_JUMP), w')
           | Inr f \<Rightarrow>
          (case getitem definition ''line'' of Inl e \<Rightarrow> (Inl (RuntimeError CANNOT_JUMP), w')
           | Inr l \<Rightarrow>
          (case getitem definition ''column'' of Inl e \<Rightarrow> (Inl (RuntimeError CANNOT_JUMP), w')
           | Inr c \<Rightarrow>
          (case py_add c 1 of Inl e \<Rightarrow> (Inl (RuntimeError CANNOT_JUMP), w')
           | Inr c1 \<Rightarrow>
              (Inr \<lparr> goto_filepath = f, goto_line_num = l, goto_column_num = c1 \<rparr>, w'))))))"

text \<open>
  \<^verbatim>\<open>DebugInfo\<close> (lines 394-414). In the second branch the source has a comma after
  the first string literal, so \<^verbatim>\<open>format\<close> is looked up on a tuple of two strings, which
  raises \<^verbatim>\<open>AttributeError\<close>.
\<close>

definition DebugInfo :: "state \<Rightarrow> world \<Rightarrow> py_error + string" where
  "DebugInfo s w =
     (if ServerIsRunning s w
      then Inr (''racerd'' @ [CHR 0x0A] @
                ''  listening at: '' @ format_str (racerd_host s) @ [CHR 0x0A] @
                ''  racerd path: '' @ racerd s @ [CHR 0x0A] @
                ''  stdout log: '' @ format_str (server_stdout s) @ [CHR 0x0A] @
                ''  stderr log: '' @ format_str (server_stderr s))
      else (if truthy_str (server_stdout s) \<and> truthy_str (server_stderr s)
            then Inl AttributeError
            else Inr ''racerd is not running''))"

section \<open>Sequences of operations\<close>

text \<open>
  The operations a caller can run on a completer other than those that start the server.
  An operation that raises leaves the completer in the state it had reached.
\<close>

datatype op =
    OpStop
  | OpShutdown
  | OpIsRunning
  | OpIsReady
  | OpDebugInfo
  | OpCompute json
  | OpGoTo json

fun run_op :: "lib \<Rightarrow> op \<Rightarrow> state \<times> world \<Rightarrow> state \<times> world" where
  "run_op L OpStop (s, w) = snd (StopServer s w)"
| "run_op L OpShutdown (s, w) = snd (Shutdown s w)"
| "run_op L OpIsRunning (s, w) = (s, w)"
| "run_op L OpIsReady (s, w) = (s, snd (ServerIsReady L s w))"
| "run_op L OpDebugInfo (s, w) = (s, w)"
| "run_op L (OpCompute rd) (s, w) = (s, snd (ComputeCandidatesInner L s w rd))"
| "run_op L (OpGoTo rd) (s, w) = (s, snd (GoToDefinition L s w rd))"

fun run_ops :: "lib \<Rightarrow> op list \<Rightarrow> state \<times> world \<Rightarrow> state \<times> world" where
  "run_ops L [] sw = sw"
| "run_ops L (x # xs) sw = run_ops L xs (run_op L x sw)"

text \<open>
  The other sequence the restart is compared with: \<^verbatim>\<open>_StopServer()\<close> and then
  \<^verbatim>\<open>_StartServer()\<close>, whatever the state.
\<close>

definition Stop_then_Start :: "state \<Rightarrow> world \<Rightarrow> (py_error + unit) \<times> state \<times> world" where
  "Stop_then_Start s w =
     (case StopServer s w of
        (Inl e, s1, w1) \<Rightarrow> (Inl e, s1, w1)
      | (Inr u, s1, w1) \<Rightarrow> StartServer s1 w1)"

text \<open>
  \<^verbatim>\<open>__init__\<close> (lines 101-118), given what \<^verbatim>\<open>FindRacerdBinary\<close> and
  \<^verbatim>\<open>_GetRustSrcPath\<close> return and the \<^verbatim>\<open>server_keep_logfiles\<close> option. The attributes
  that \<^verbatim>\<open>__init__\<close> leaves for \<^verbatim>\<open>_StartServer\<close> to create are \<open>None\<close> until then.
\<close>

definition BINARY_NOT_FOUND_MESSAGE :: string where
  "BINARY_NOT_FOUND_MESSAGE =
     ''racerd binary not found. Did you build it? '' @
     ''You can do so by running '' @
     [CHR 0x22] @ ''./build.py --racer-completer'' @ [CHR 0x22] @ ''.''"

definition Init :: "string option \<Rightarrow> bool \<Rightarrow> string option \<Rightarrow> world \<Rightarrow> (py_error + unit) \<times> state \<times> world" where
  "Init binary keep src w =
     (let s = \<lparr> racerd = format_str binary, racerd_host = None, keep_logfiles = keep,
                hmac_secret = [], rust_source_path = src, server_stdout = None,
                server_stderr = None, racerd_phandle = None \<rparr>
      in if \<not> truthy_str binary
         then (Inl (RuntimeError BINARY_NOT_FOUND_MESSAGE), s, w)
         else StartServer s w)"

section \<open>A concrete environment\<close>

text \<open>
  Inputs on which the model is evaluated: library functions that keep their arguments
  visible, and a world in which port 8080 is free, the spawned process 1 stays alive and
  the backend answers as \<open>answer\<close> says.
\<close>

definition example_lib :: lib where
  "example_lib =
     \<lparr> json_dumps = (\<lambda>j. ''{}''),
       CreateRequestHmac = (\<lambda>meth path body secret. secret @ meth @ path @ body) \<rparr>"

definition example_world :: "(py_error + response) \<Rightarrow> world" where
  "example_world answer =
     \<lparr> events = [], fs = (\<lambda>f. None), alive = (\<lambda>p. False), unused_port = 8080,
       urandom = (\<lambda>n. replicate n (CHR ''a'')), temp_dir = ''/tmp/ycm_temp'',
       secret_file_name = ''/tmp/secret'', popen_pid = 1, popen_alive = True,
       respond = (\<lambda>es req. answer) \<rparr>"

definition example_request :: json where
  "example_request =
     JObj [(''filepath'', JStr ''a.rs''),
           (''file_data'', JObj [(''a.rs'', JObj [(''contents'', JStr ''fn main() {}'')])]),
           (''line_num'', JInt 10), (''column_num'', JInt 3)]"

text \<open>
  The completer that \<open>Init\<close> builds in that world (see \<open>Init_example\<close> below), and the
  same completer after \<open>StopServer\<close> (see \<open>StopServer_example\<close>).
\<close>

definition started_state :: "bool \<Rightarrow> string option \<Rightarrow> state" where
  "started_state keep src =
     \<lparr> racerd = ''racerd'', racerd_host = Some ''http://127.0.0.1:8080'',
       keep_logfiles = keep, hmac_secret = ''YWFhYWFhYWFhYWFhYWFhYQ=='',
       rust_source_path = src,
       server_stdout = Some ''/tmp/ycm_temp/racerd_8080_stdout.log'',
       server_stderr = Some ''/tmp/ycm_temp/racerd_8080_stderr.log'',
       racerd_phandle = Some 1 \<rparr>"

definition stopped_state :: "bool \<Rightarrow> string option \<Rightarrow> state" where
  "stopped_state keep src =
     \<lparr> racerd = ''racerd'', racerd_host = None,
       keep_logfiles = keep, hmac_secret = ''YWFhYWFhYWFhYWFhYWFhYQ=='',
       rust_source_path = src,
       server_stdout = (if keep then Some ''/tmp/ycm_temp/racerd_8080_stdout.log'' else None),
       server_stderr = (if keep then Some ''/tmp/ycm_temp/racerd_8080_stderr.log'' else None),
       racerd_phandle = None \<rparr>"

section \<open>Properties\<close>

subsection \<open>Location of a completion candidate\<close>

lemma GetExtraData_fields:
  assumes "getitem completion ''file_path'' = Inr f"
    and "getitem completion ''line'' = Inr l"
    and "getitem completion ''column'' = Inr (JInt n)"
  shows "GetExtraData completion =
     Inr (if truthy f \<or> truthy l \<or> n \<noteq> 0
          then JObj [(''location'', JObj
                 ((if truthy f then [(''filepath'', f)] else []) @
                  (if truthy l then [(''line_num'', l)] else []) @
                  (if n \<noteq> 0 then [(''column_num'', JInt (n + 1))] else [])))]
          else JNull)"
  using assms by (simp add: GetExtraData_def)

text \<open>
  C1 (as amended). A candidate gets a location as soon as one of file path, line and
  column is truthy, and the location holds an entry for exactly the truthy ones: the
  path as \<open>filepath\<close>, the line as \<open>line_num\<close>, and the column plus one as \<open>column_num\<close>.
  A column of 0 leaves out \<open>column_num\<close> only; no location at all is attached only when
  the path and the line are falsy too.
\<close>

theorem BuildCandidate_location:
  assumes "getitem completion ''text'' = Inr t"
    and "getitem completion ''kind'' = Inr k"
    and "getitem completion ''context'' = Inr c"
    and "getitem completion ''file_path'' = Inr f"
    and "getitem completion ''line'' = Inr l"
    and "getitem completion ''column'' = Inr (JInt n)"
  shows "BuildCandidate completion =
     Inr \<lparr> insertion_text = t, kind = k, extra_menu_info = c,
           extra_data =
             (if truthy f \<or> truthy l \<or> n \<noteq> 0
              then JObj [(''location'', JObj
                     ((if truthy f then [(''filepath'', f)] else []) @
                      (if truthy l then [(''line_num'', l)] else []) @
                      (if n \<noteq> 0 then [(''column_num'', JInt (n + 1))] else [])))]
              else JNull) \<rparr>"
  using assms(1-3) GetExtraData_fields [OF assms(4-6)]
  by (simp add: BuildCandidate_def)

theorem BuildCandidate_location_witness:
  "BuildCandidate (JObj [(''text'', JStr ''foo''), (''kind'', JStr ''Function''),
       (''context'', JStr ''fn foo()''), (''file_path'', JStr ''a.rs''),
       (''line'', JInt 10), (''column'', JInt 5)]) =
     Inr \<lparr> insertion_text = JStr ''foo'', kind = JStr ''Function'',
           extra_menu_info = JStr ''fn foo()'',
           extra_data = JObj [(''location'', JObj [(''filepath'', JStr ''a.rs''),
             (''line_num'', JInt 10), (''column_num'', JInt 6)])] \<rparr>"
  using BuildCandidate_location [of
      "JObj [(''text'', JStr ''foo''), (''kind'', JStr ''Function''),
         (''context'', JStr ''fn foo()''), (''file_path'', JStr ''a.rs''),
         (''line'', JInt 10), (''column'', JInt 5)]"
      "JStr ''foo''" "JStr ''Function''" "JStr ''fn foo()''" "JStr ''a.rs''" "JInt 10" 5]
  by simp

text \<open>
  C1 (as stated) fails: with a path and a line but column 0 the candidate still carries
  a location, one without \<open>column_num\<close>.
\<close>

theorem BuildCandidate_column_zero_counterexample:
  "BuildCandidate (JObj [(''text'', JStr ''foo''), (''kind'', JStr ''Function''),
       (''context'', JStr ''fn foo()''), (''file_path'', JStr ''a.rs''),
       (''line'', JInt 10), (''column'', JInt 0)]) =
     Inr \<lparr> insertion_text = JStr ''foo'', kind = JStr ''Function'',
           extra_menu_info = JStr ''fn foo()'',
           extra_data = JObj [(''location'', JObj [(''filepath'', JStr ''a.rs''),
             (''line_num'', JInt 10)])] \<rparr>"
  by (simp add: BuildCandidate_def GetExtraData_def)

end
